theory Spec2Isabelle
  imports Main "HOL-Library.Sublist"
begin

section \<open>Values shared by the dashboard and the service worker\<close>

text \<open>
  JavaScript errors are values here: the constructor is the error's class and the argument its
  \<open>message\<close>. A rejected promise and a \<open>throw\<close> are both the left injection of a sum.
\<close>

datatype error = Error string | TypeError string | SyntaxError string | DOMException string

fun message :: "error \<Rightarrow> string" where
  "message (Error m) = m"
| "message (TypeError m) = m"
| "message (SyntaxError m) = m"
| "message (DOMException m) = m"

text \<open>
  A \<open>Response\<close>: \<open>ok\<close> is not stored, the platform derives it from the status
  (200 to 299).
\<close>

record response =
  status :: nat
  statusText :: string
  resp_headers :: "(string \<times> string) list"
  body :: string

definition ok :: "response \<Rightarrow> bool" where
  "ok r = (200 \<le> status r \<and> status r \<le> 299)"

text \<open>Parsed JSON. Numbers are kept as integers: only zero or not matters below.\<close>

datatype json =
    JNull
  | JBool bool
  | JNum int
  | JStr string
  | JArr "json list"
  | JObj "(string \<times> json) list"

text \<open>JavaScript truthiness of a parsed value, as \<open>if (cachedData)\<close> tests it.\<close>

fun truthy :: "json \<Rightarrow> bool" where
  "truthy JNull = False"
| "truthy (JBool b) = b"
| "truthy (JNum n) = (n \<noteq> 0)"
| "truthy (JStr s) = (s \<noteq> [])"
| "truthy (JArr xs) = True"
| "truthy (JObj kvs) = True"

text \<open>Decimal rendering of a number inside a template literal.\<close>

definition digit_char :: "nat \<Rightarrow> char" where
  "digit_char d = char_of (48 + d)"

fun show_nat :: "nat \<Rightarrow> string" where
  "show_nat n = (if n < 10 then [digit_char n] else show_nat (n div 10) @ [digit_char (n mod 10)])"

declare show_nat.simps [simp del]

section \<open>The dashboard (app.js)\<close>

text \<open>
  What the page's code cannot decide is a parameter: the outcome of the \<open>n\<close>-th network request
  the page issues, the platform's \<open>JSON.parse\<close> (\<open>None\<close> when it throws) and
  \<open>JSON.stringify\<close>, whether the storage medium rejects a \<open>setItem\<close> (quota), the clock,
  and whether the view throws while rendering a collection.
\<close>

record env =
  fetch :: "nat \<Rightarrow> string \<Rightarrow> error + response"
  parse :: "string \<Rightarrow> json option"
  stringify :: "json \<Rightarrow> string"
  rejects :: "(string \<rightharpoonup> string) \<Rightarrow> string \<Rightarrow> string \<Rightarrow> bool"
  Date_now :: nat
  render :: "json \<Rightarrow> error option"

datatype level = LOG | WARN | ERROR

text \<open>
  The state the data layer reads and writes: the fields of \<open>GolfDashboard\<close> it uses, the
  browser's \<open>localStorage\<close>, and three observation fields: the number of network requests
  issued so far, the timeouts awaited (in milliseconds), and the console.
\<close>

record dashboard =
  tournaments :: json
  maxRetries :: nat
  connectionStatus :: string
  localStorage :: "string \<rightharpoonup> string"
  fetchCalls :: nat
  delays :: "nat list"
  console :: "(level \<times> string) list"

text \<open>The constructor's fields, for a given browser storage.\<close>

definition GolfDashboard :: "(string \<rightharpoonup> string) \<Rightarrow> dashboard" where
  "GolfDashboard store =
     \<lparr>tournaments = JArr [], maxRetries = 3, connectionStatus = ''online'',
      localStorage = store, fetchCalls = 0, delays = [], console = []\<rparr>"

definition console_write :: "level \<Rightarrow> string \<Rightarrow> dashboard \<Rightarrow> dashboard" where
  "console_write l m s = s\<lparr>console := console s @ [(l, m)]\<rparr>"

definition showConnectionStatus :: "string \<Rightarrow> dashboard \<Rightarrow> dashboard" where
  "showConnectionStatus st s = s\<lparr>connectionStatus := st\<rparr>"

text \<open>
  One attempt of \<open>fetchWithRetry\<close>, the \<open>n\<close>-th request of the page: the request is
  issued, and a response that is not \<open>ok\<close> is thrown as \<open>HTTP <status>: <statusText>\<close>.
\<close>

definition attempt :: "env \<Rightarrow> string \<Rightarrow> nat \<Rightarrow> error + response" where
  "attempt e u n =
     (case fetch e n u of
        Inl err \<Rightarrow> Inl err
      | Inr r \<Rightarrow>
          if \<not> ok r then Inl (Error (''HTTP '' @ show_nat (status r) @ '': '' @ statusText r))
          else Inr r)"

text \<open>
  The \<open>for\<close> loop of \<open>fetchWithRetry\<close>, from index \<open>i\<close>. Falling out of the loop returns
  \<open>undefined\<close>, which is \<open>Inr None\<close>.
\<close>

function fetchWithRetry_from :: "env \<Rightarrow> string \<Rightarrow> nat \<Rightarrow> dashboard \<Rightarrow> (error + response option) \<times> dashboard" where
  "fetchWithRetry_from e u i s =
     (if i < maxRetries s then
        (case attempt e u (fetchCalls s) of
           Inr r \<Rightarrow> (Inr (Some r), s\<lparr>fetchCalls := fetchCalls s + 1\<rparr>)
         | Inl err \<Rightarrow>
             (let s1 = console_write WARN
                         (''Fetch attempt '' @ show_nat (i + 1) @ '' failed: '' @ message err)
                         (s\<lparr>fetchCalls := fetchCalls s + 1\<rparr>)
              in if int i = int (maxRetries s) - 1 then (Inl err, s1)
                 else fetchWithRetry_from e u (i + 1) (s1\<lparr>delays := delays s1 @ [2 ^ i * 1000]\<rparr>)))
      else (Inr None, s))"
  by pat_completeness auto
termination
  by (relation "measure (\<lambda>(e, u, i, s). maxRetries s - i)") (auto simp: console_write_def)

declare fetchWithRetry_from.simps [simp del]

definition fetchWithRetry :: "env \<Rightarrow> string \<Rightarrow> dashboard \<Rightarrow> (error + response option) \<times> dashboard" where
  "fetchWithRetry e u s = fetchWithRetry_from e u 0 s"

text \<open>
  \<open>getCachedData\<close>: an absent or empty item is \<open>null\<close>; a parse that throws is caught,
  warned about, and \<open>null\<close> again.
\<close>

definition getCachedData :: "env \<Rightarrow> dashboard \<Rightarrow> json \<times> dashboard" where
  "getCachedData e s =
     (case localStorage s ''golf-tournaments'' of
        None \<Rightarrow> (JNull, s)
      | Some cached \<Rightarrow>
          if cached = [] then (JNull, s)
          else (case parse e cached of
                  Some v \<Rightarrow> (v, s)
                | None \<Rightarrow> (JNull, console_write WARN ''Failed to load cached data:'' s)))"

definition setItem :: "env \<Rightarrow> string \<Rightarrow> string \<Rightarrow> dashboard \<Rightarrow> error + dashboard" where
  "setItem e k v s =
     (if rejects e (localStorage s) k v then Inl (DOMException ''QuotaExceededError'')
      else Inr (s\<lparr>localStorage := (localStorage s)(k \<mapsto> v)\<rparr>))"

text \<open>\<open>setCachedData\<close>: two writes inside one \<open>try\<close>; the \<open>catch\<close> only warns.\<close>

definition setCachedData :: "env \<Rightarrow> json \<Rightarrow> dashboard \<Rightarrow> dashboard" where
  "setCachedData e d s =
     (case setItem e ''golf-tournaments'' (stringify e d) s of
        Inl err \<Rightarrow> console_write WARN (''Failed to cache data: '' @ message err) s
      | Inr s1 \<Rightarrow>
          (case setItem e ''golf-tournaments-timestamp'' (show_nat (Date_now e)) s1 of
             Inl err \<Rightarrow> console_write WARN (''Failed to cache data: '' @ message err) s1
           | Inr s2 \<Rightarrow> s2))"

text \<open>The \<open>catch\<close> block of \<open>loadData\<close>.\<close>

definition loadData_catch :: "env \<Rightarrow> error \<Rightarrow> dashboard \<Rightarrow> (error + unit) \<times> dashboard" where
  "loadData_catch e err s =
     (let s1 = console_write ERROR (''Failed to load data: '' @ message err) s;
          (fallbackData, s2) = getCachedData e s1
      in if truthy fallbackData then
           (Inr (), console_write LOG ''Using cached data due to network error''
                      (showConnectionStatus ''offline'' (s2\<lparr>tournaments := fallbackData\<rparr>)))
         else (Inl (Error ''No data available''), s2))"

definition loadData :: "env \<Rightarrow> dashboard \<Rightarrow> (error + unit) \<times> dashboard" where
  "loadData e s =
     (let (cachedData, s0) = getCachedData e s
      in if truthy cachedData then
           (Inr (), console_write LOG ''Loaded data from cache'' (s0\<lparr>tournaments := cachedData\<rparr>))
         else
           (case fetchWithRetry e ''./data/championships.json'' s0 of
              (Inl err, s1) \<Rightarrow> loadData_catch e err s1
            | (Inr None, s1) \<Rightarrow>
                loadData_catch e (TypeError ''Cannot read properties of undefined (reading 'json')'') s1
            | (Inr (Some r), s1) \<Rightarrow>
                (case parse e (body r) of
                   None \<Rightarrow> loadData_catch e (SyntaxError ''Unexpected token in JSON'') s1
                 | Some d \<Rightarrow>
                     (Inr (), console_write LOG ''Loaded fresh data and cached it''
                                (setCachedData e d (s1\<lparr>tournaments := d\<rparr>))))))"

text \<open>
  \<open>renderDashboard\<close> is the view: it changes nothing the data layer reads, but it runs
  inside the \<open>try\<close> of \<open>refreshData\<close>, so whether it throws matters there.
\<close>

definition renderDashboard :: "env \<Rightarrow> dashboard \<Rightarrow> error + dashboard" where
  "renderDashboard e s = (case render e (tournaments s) of Some err \<Rightarrow> Inl err | None \<Rightarrow> Inr s)"

definition refreshData_catch :: "error \<Rightarrow> dashboard \<Rightarrow> dashboard" where
  "refreshData_catch err s =
     showConnectionStatus ''offline'' (console_write ERROR (''Failed to refresh data: '' @ message err) s)"

definition refreshData :: "env \<Rightarrow> dashboard \<Rightarrow> dashboard" where
  "refreshData e s =
     (case loadData e (showConnectionStatus ''reconnecting'' s) of
        (Inl err, s1) \<Rightarrow> refreshData_catch err s1
      | (Inr _, s1) \<Rightarrow>
          (case renderDashboard e s1 of
             Inl err \<Rightarrow> refreshData_catch err s1
           | Inr s2 \<Rightarrow> showConnectionStatus ''online'' s2))"

text \<open>
  \<open>handleFormSubmit\<close>, as far as the data layer goes: the new record is pushed onto the
  collection (a \<open>TypeError\<close> when the collection has no \<open>push\<close>), the cache is updated and
  the view rendered. Nothing here is caught.
\<close>

definition handleFormSubmit :: "env \<Rightarrow> json \<Rightarrow> dashboard \<Rightarrow> error + dashboard" where
  "handleFormSubmit e newTournament s =
     (case tournaments s of
        JArr ts \<Rightarrow>
          (let s1 = s\<lparr>tournaments := JArr (ts @ [newTournament])\<rparr>
           in renderDashboard e (setCachedData e (tournaments s1) s1))
      | _ \<Rightarrow> Inl (TypeError ''this.tournaments.push is not a function''))"

section \<open>A model of the platform's JSON\<close>

text \<open>
  \<open>JSON.parse\<close> on the part of the grammar used here: objects, arrays, strings without
  escapes, integers, \<open>true\<close>, \<open>false\<close>, \<open>null\<close> and white space. Anything else is
  \<open>None\<close>, as is a text the real parser rejects. A lexer runs over the characters, a
  stack machine over the tokens.
\<close>

datatype token =
    LBrace | RBrace | LBracket | RBracket | Colon | Comma
  | TStr string | TNum int | TTrue | TFalse | TNull

datatype lexmode = Plain | InString string | InNumber bool string | InWord string

definition is_ws :: "char \<Rightarrow> bool" where
  "is_ws c = (c \<in> set [CHR '' '', CHR 0x0A, CHR 0x0D, CHR 0x09])"

definition is_digit :: "char \<Rightarrow> bool" where
  "is_digit c = (c \<in> set ''0123456789'')"

definition is_letter :: "char \<Rightarrow> bool" where
  "is_letter c = (c \<in> set ''abcdefghijklmnopqrstuvwxyz'')"

definition digit_val :: "char \<Rightarrow> nat" where
  "digit_val c = of_char c - 48"

definition number_token :: "bool \<Rightarrow> string \<Rightarrow> token option" where
  "number_token neg rev_digits =
     (let ds = rev rev_digits; n = foldl (\<lambda>a c. 10 * a + digit_val c) 0 ds
      in if ds = [] \<or> (hd ds = CHR ''0'' \<and> length ds \<noteq> 1) then None
         else Some (TNum (if neg then - int n else int n)))"

definition word_token :: "string \<Rightarrow> token option" where
  "word_token rev_w =
     (let w = rev rev_w
      in if w = ''true'' then Some TTrue else if w = ''false'' then Some TFalse
         else if w = ''null'' then Some TNull else None)"

definition plain_step :: "char \<Rightarrow> (lexmode \<times> token list) option" where
  "plain_step c =
     (if is_ws c then Some (Plain, [])
      else if c = CHR ''{'' then Some (Plain, [LBrace])
      else if c = CHR ''}'' then Some (Plain, [RBrace])
      else if c = CHR ''['' then Some (Plain, [LBracket])
      else if c = CHR '']'' then Some (Plain, [RBracket])
      else if c = CHR '':'' then Some (Plain, [Colon])
      else if c = CHR '','' then Some (Plain, [Comma])
      else if c = CHR 0x22 then Some (InString [], [])
      else if c = CHR ''-'' then Some (InNumber True [], [])
      else if is_digit c then Some (InNumber False [c], [])
      else if is_letter c then Some (InWord [c], [])
      else None)"

fun lex_step :: "lexmode \<Rightarrow> char \<Rightarrow> (lexmode \<times> token list) option" where
  "lex_step Plain c = plain_step c"
| "lex_step (InString acc) c =
     (if c = CHR 0x22 then Some (Plain, [TStr (rev acc)])
      else if c = CHR 0x5C \<or> of_char c < (32::nat) then None
      else Some (InString (c # acc), []))"
| "lex_step (InNumber neg acc) c =
     (if is_digit c then Some (InNumber neg (c # acc), [])
      else (case (number_token neg acc, plain_step c) of
              (Some t, Some (m, ts)) \<Rightarrow> Some (m, t # ts)
            | _ \<Rightarrow> None))"
| "lex_step (InWord acc) c =
     (if is_letter c then Some (InWord (c # acc), [])
      else (case (word_token acc, plain_step c) of
              (Some t, Some (m, ts)) \<Rightarrow> Some (m, t # ts)
            | _ \<Rightarrow> None))"

fun lex_end :: "lexmode \<Rightarrow> token list option" where
  "lex_end Plain = Some []"
| "lex_end (InString acc) = None"
| "lex_end (InNumber neg acc) = map_option (\<lambda>t. [t]) (number_token neg acc)"
| "lex_end (InWord acc) = map_option (\<lambda>t. [t]) (word_token acc)"

fun lex_run :: "lexmode \<Rightarrow> string \<Rightarrow> token list option" where
  "lex_run m [] = lex_end m"
| "lex_run m (c # cs) =
     (case lex_step m c of
        None \<Rightarrow> None
      | Some (m', ts) \<Rightarrow> map_option ((@) ts) (lex_run m' cs))"

text \<open>
  The stack machine. A frame is an array or an object under construction, with what it has
  just read; the parent of an open frame is looked at only when the frame closes.
\<close>

datatype arr_state = AStart | AValue | AComma

datatype obj_state = OStart | OKey string | OColon string | OValue | OComma

datatype frame =
    ArrF "json list" arr_state
  | ObjF "(string \<times> json) list" obj_state

type_synonym pstate = "json option \<times> frame list"

fun push_value :: "json \<Rightarrow> pstate \<Rightarrow> pstate option" where
  "push_value v (None, []) = Some (Some v, [])"
| "push_value v (Some _, []) = None"
| "push_value v (res, ArrF es st # stk) =
     (if st = AValue then None else Some (res, ArrF (v # es) AValue # stk))"
| "push_value v (res, ObjF ps st # stk) =
     (case st of OColon k \<Rightarrow> Some (res, ObjF ((k, v) # ps) OValue # stk) | _ \<Rightarrow> None)"

fun parse_step :: "token \<Rightarrow> pstate \<Rightarrow> pstate option" where
  "parse_step LBracket (res, stk) = Some (res, ArrF [] AStart # stk)"
| "parse_step LBrace (res, stk) = Some (res, ObjF [] OStart # stk)"
| "parse_step RBracket (res, stk) =
     (case stk of
        ArrF es st # rest \<Rightarrow> if st = AComma then None else push_value (JArr (rev es)) (res, rest)
      | _ \<Rightarrow> None)"
| "parse_step RBrace (res, stk) =
     (case stk of
        ObjF ps st # rest \<Rightarrow>
          if st = OStart \<or> st = OValue then push_value (JObj (rev ps)) (res, rest) else None
      | _ \<Rightarrow> None)"
| "parse_step Comma (res, stk) =
     (case stk of
        ArrF es st # rest \<Rightarrow> if st = AValue then Some (res, ArrF es AComma # rest) else None
      | ObjF ps st # rest \<Rightarrow> if st = OValue then Some (res, ObjF ps OComma # rest) else None
      | _ \<Rightarrow> None)"
| "parse_step Colon (res, stk) =
     (case stk of
        ObjF ps (OKey k) # rest \<Rightarrow> Some (res, ObjF ps (OColon k) # rest)
      | _ \<Rightarrow> None)"
| "parse_step (TStr s) (res, stk) =
     (case stk of
        ObjF ps st # rest \<Rightarrow>
          if st = OStart \<or> st = OComma then Some (res, ObjF ps (OKey s) # rest)
          else push_value (JStr s) (res, stk)
      | _ \<Rightarrow> push_value (JStr s) (res, stk))"
| "parse_step (TNum n) st = push_value (JNum n) st"
| "parse_step TTrue st = push_value (JBool True) st"
| "parse_step TFalse st = push_value (JBool False) st"
| "parse_step TNull st = push_value JNull st"

fun parse_tokens :: "token list \<Rightarrow> pstate \<Rightarrow> json option" where
  "parse_tokens [] (res, stk) = (if stk = [] then res else None)"
| "parse_tokens (t # ts) st =
     (case parse_step t st of None \<Rightarrow> None | Some st' \<Rightarrow> parse_tokens ts st')"

definition JSON_parse :: "string \<Rightarrow> json option" where
  "JSON_parse s = (case lex_run Plain s of None \<Rightarrow> None | Some ts \<Rightarrow> parse_tokens ts (None, []))"

text \<open>\<open>JSON.stringify\<close> on the same part of the grammar, without indentation.\<close>

definition show_int :: "int \<Rightarrow> string" where
  "show_int n = (if n < 0 then CHR ''-'' # show_nat (nat (- n)) else show_nat (nat n))"

definition quoted :: "string \<Rightarrow> string" where
  "quoted s = CHR 0x22 # s @ [CHR 0x22]"

fun commas :: "string list \<Rightarrow> string" where
  "commas [] = []"
| "commas [x] = x"
| "commas (x # y # ys) = x @ '','' @ commas (y # ys)"

fun JSON_stringify :: "json \<Rightarrow> string" where
  "JSON_stringify JNull = ''null''"
| "JSON_stringify (JBool b) = (if b then ''true'' else ''false'')"
| "JSON_stringify (JNum n) = show_int n"
| "JSON_stringify (JStr s) = quoted s"
| "JSON_stringify (JArr xs) = ''['' @ commas (map JSON_stringify xs) @ '']''"
| "JSON_stringify (JObj kvs) =
     ''{'' @ commas (map (\<lambda>kv. quoted (fst kv) @ '':'' @ JSON_stringify (snd kv)) kvs) @ ''}''"

section \<open>The service worker\<close>

text \<open>String tests of JavaScript: \<open>s.includes(t)\<close> and \<open>s.endsWith(t)\<close>.\<close>

primrec includes_str :: "string \<Rightarrow> string \<Rightarrow> bool" where
  "includes_str [] t = (t = [])"
| "includes_str (c # cs) t = (prefix t (c # cs) \<or> includes_str cs t)"

definition endsWith :: "string \<Rightarrow> string \<Rightarrow> bool" where
  "endsWith s t = suffix t s"

text \<open>
  A \<open>Request\<close>, with the four properties the worker reads. Header names are kept in lower
  case, as \<open>Headers\<close> normalises them; \<open>headers.get\<close> of an absent header is \<open>null\<close>.
\<close>

record request =
  url :: string
  "method" :: string
  mode :: string
  req_headers :: "(string \<times> string) list"

definition headers_get :: "request \<Rightarrow> string \<Rightarrow> string option" where
  "headers_get r name = map_of (req_headers r) name"

text \<open>
  \<open>CacheStorage\<close>: the named caches in creation order, each a list of entries keyed by
  request URL. \<open>caches.match\<close> asks every cache in that order and returns the first hit.
  \<open>write_entry\<close> is the write of an accepted \<open>cache.put\<close>: it replaces the entry of the URL
  in the named cache or adds one.
\<close>

type_synonym cache = "(string \<times> response) list"

type_synonym CacheStorage = "(string \<times> cache) list"

definition CACHE_NAME :: string where
  "CACHE_NAME = ''golf-dashboard-v1.2''"

definition STATIC_CACHE :: string where
  "STATIC_CACHE = ''golf-static-v1.2''"

definition DATA_CACHE :: string where
  "DATA_CACHE = ''golf-data-v1.2''"

definition cache_of :: "CacheStorage \<Rightarrow> string \<Rightarrow> cache" where
  "cache_of cs name = (case map_of cs name of None \<Rightarrow> [] | Some c \<Rightarrow> c)"

fun caches_match :: "CacheStorage \<Rightarrow> string \<Rightarrow> response option" where
  "caches_match [] u = None"
| "caches_match ((name, c) # cs) u =
     (case map_of c u of Some r \<Rightarrow> Some r | None \<Rightarrow> caches_match cs u)"

definition caches_open :: "string \<Rightarrow> CacheStorage \<Rightarrow> CacheStorage" where
  "caches_open name cs = (case map_of cs name of None \<Rightarrow> cs @ [(name, [])] | Some c \<Rightarrow> cs)"

fun put_entry :: "string \<Rightarrow> response \<Rightarrow> cache \<Rightarrow> cache" where
  "put_entry u r [] = [(u, r)]"
| "put_entry u r ((k, v) # c) = (if k = u then (u, r) # c else (k, v) # put_entry u r c)"

fun write_entry :: "string \<Rightarrow> request \<Rightarrow> response \<Rightarrow> CacheStorage \<Rightarrow> CacheStorage" where
  "write_entry name req r [] = []"
| "write_entry name req r ((n, c) # cs) =
     (if n = name then (n, put_entry (url req) r c) # cs else (n, c) # write_entry name req r cs)"

text \<open>
  What the worker cannot decide: the outcome of \<open>fetch(request)\<close>, the origin against which
  \<open>caches.match('/index.html')\<close> resolves its URL, and whether the storage medium has run
  out of quota for a write.
\<close>

record sw_env =
  net :: "request \<Rightarrow> error + response"
  origin :: string
  quota_exceeded :: "request \<Rightarrow> response \<Rightarrow> bool"

text \<open>
  The \<open>Vary\<close> header of a response: header names compare without case, and the value is a
  list of fields separated by commas, with white space around them.
\<close>

definition to_lower :: "char \<Rightarrow> char" where
  "to_lower c = (let n = (of_char c :: nat) in if 65 \<le> n \<and> n \<le> 90 then char_of (n + 32) else c)"

fun split_commas :: "string \<Rightarrow> string \<Rightarrow> string list" where
  "split_commas acc [] = [rev acc]"
| "split_commas acc (c # cs) =
     (if c = CHR '','' then rev acc # split_commas [] cs else split_commas (c # acc) cs)"

definition trim :: "string \<Rightarrow> string" where
  "trim s = rev (dropWhile is_ws (rev (dropWhile is_ws s)))"

definition vary_fields :: "response \<Rightarrow> string list" where
  "vary_fields r =
     concat (map (\<lambda>kv. if map to_lower (fst kv) = ''vary'' then map trim (split_commas [] (snd kv)) else [])
               (resp_headers r))"

text \<open>
  \<open>cache.put(request, response)\<close>. The platform rejects the put, with nothing written, when
  the request is not a \<open>GET\<close> over http or https, when the response has status 206, when it
  varies on \<open>*\<close>, or when the medium is out of quota. The worker neither awaits the put nor
  catches its rejection: a rejected put leaves the cache storage as it was and the handler
  goes on. An accepted put is taken to be written at once.
\<close>

definition put_accepted :: "sw_env \<Rightarrow> request \<Rightarrow> response \<Rightarrow> bool" where
  "put_accepted w req r =
     (method req = ''GET'' \<and> (prefix ''http://'' (url req) \<or> prefix ''https://'' (url req)) \<and>
      status r \<noteq> 206 \<and> ''*'' \<notin> set (vary_fields r) \<and> \<not> quota_exceeded w req r)"

definition cache_put :: "sw_env \<Rightarrow> string \<Rightarrow> request \<Rightarrow> response \<Rightarrow> CacheStorage \<Rightarrow> CacheStorage" where
  "cache_put w name req r cs = (if put_accepted w req r then write_entry name req r cs else cs)"

definition isDataRequest :: "request \<Rightarrow> bool" where
  "isDataRequest r = (includes_str (url r) ''/data/'' \<or> endsWith (url r) ''.json'')"

definition isStaticResource :: "request \<Rightarrow> bool" where
  "isStaticResource r =
     (includes_str (url r) ''.css'' \<or> includes_str (url r) ''.js'' \<or> includes_str (url r) ''.png'' \<or>
      includes_str (url r) ''.jpg'' \<or> includes_str (url r) ''.jpeg'' \<or> includes_str (url r) ''.gif'' \<or>
      includes_str (url r) ''.svg'' \<or> includes_str (url r) ''.ico'' \<or>
      includes_str (url r) ''cdn.jsdelivr.net'')"

definition isNavigationRequest :: "request \<Rightarrow> bool" where
  "isNavigationRequest r =
     (mode r = ''navigate'' \<or> endsWith (url r) ''.html'' \<or>
      (case headers_get r ''accept'' of
         None \<Rightarrow> False
       | Some a \<Rightarrow> a \<noteq> [] \<and> includes_str a ''text/html''))"

text \<open>
  The page \<open>createOfflineResponse\<close> answers a markup request with: the lines of its
  template literal, which opens with a line break and closes after the indentation of its
  last line. The icon is the four bytes of U+1F310 in UTF-8.
\<close>

definition offline_page_lines :: "string list" where
  \<open>offline_page_lines =
     [''            <!DOCTYPE html>'',
      ''            <html lang="en">'',
      ''            <head>'',
      ''                <meta charset="UTF-8">'',
      ''                <meta name="viewport" content="width=device-width, initial-scale=1.0">'',
      ''                <title>Offline - Golf Dashboard</title>'',
      ''                <style>'',
      ''                    body {'',
      ''                        font-family: 'Segoe UI', Tahoma, Geneva, Verdana, sans-serif;'',
      ''                        background: linear-gradient(135deg, #1e3c72 0%, #2a5298 100%);'',
      ''                        color: white;'',
      ''                        display: flex;'',
      ''                        justify-content: center;'',
      ''                        align-items: center;'',
      ''                        min-height: 100vh;'',
      ''                        margin: 0;'',
      ''                        text-align: center;'',
      ''                    }'',
      ''                    .offline-container {'',
      ''                        background: rgba(255, 255, 255, 0.1);'',
      ''                        backdrop-filter: blur(10px);'',
      ''                        padding: 40px;'',
      ''                        border-radius: 15px;'',
      ''                        box-shadow: 0 8px 32px rgba(0,0,0,0.3);'',
      ''                    }'',
      ''                    .offline-icon {'',
      ''                        font-size: 64px;'',
      ''                        margin-bottom: 20px;'',
      ''                    }'',
      ''                    h1 {'',
      ''                        margin-bottom: 20px;'',
      ''                        color: #fff;'',
      ''                    }'',
      ''                    p {'',
      ''                        margin-bottom: 30px;'',
      ''                        opacity: 0.9;'',
      ''                    }'',
      ''                    .retry-btn {'',
      ''                        background: #4CAF50;'',
      ''                        color: white;'',
      ''                        border: none;'',
      ''                        padding: 12px 24px;'',
      ''                        border-radius: 8px;'',
      ''                        cursor: pointer;'',
      ''                        font-size: 16px;'',
      ''                        font-weight: 600;'',
      ''                        transition: background 0.3s ease;'',
      ''                    }'',
      ''                    .retry-btn:hover {'',
      ''                        background: #45a049;'',
      ''                    }'',
      ''                </style>'',
      ''            </head>'',
      ''            <body>'',
      ''                <div class="offline-container">'',
      ''                    <div class="offline-icon">'' @ [CHR 0xF0, CHR 0x9F, CHR 0x8C, CHR 0x90] @ ''</div>'',
      ''                    <h1>You're Offline</h1>'',
      ''                    <p>It looks like you're not connected to the internet.<br>'',
      ''                    Some features may not be available until you reconnect.</p>'',
      ''                    <button class="retry-btn" onclick="window.location.reload()">'',
      ''                        Try Again'',
      ''                    </button>'',
      ''                </div>'',
      ''            </body>'',
      ''            </html>'']\<close>

definition offline_html :: string where
  "offline_html =
     ''\<newline>'' @ concat (map (\<lambda>l. l @ ''\<newline>'') offline_page_lines) @ ''        ''"

text \<open>
  \<open>createOfflineResponse\<close> calls \<open>includes\<close> on the Accept header without a guard: with no
  such header that is a \<open>TypeError\<close>.
\<close>

definition createOfflineResponse :: "request \<Rightarrow> error + response" where
  \<open>createOfflineResponse r =
     (case headers_get r ''accept'' of
        None \<Rightarrow> Inl (TypeError ''Cannot read properties of null (reading 'includes')'')
      | Some a \<Rightarrow>
          if includes_str a ''text/html'' then
            Inr \<lparr>status = 200, statusText = [],
                 resp_headers = [(''Content-Type'', ''text/html''), (''Cache-Control'', ''no-cache'')],
                 body = offline_html\<rparr>
          else if includes_str a ''application/json'' then
            Inr \<lparr>status = 200, statusText = [],
                 resp_headers = [(''Content-Type'', ''application/json''), (''Cache-Control'', ''no-cache'')],
                 body = ''{"error": "Offline", "data": []}''\<rparr>
          else
            Inr \<lparr>status = 503, statusText = ''Service Unavailable'',
                 resp_headers = [(''Content-Type'', ''text/plain''), (''Cache-Control'', ''no-cache'')],
                 body = ''Offline''\<rparr>)\<close>

text \<open>
  The four handlers. Each returns what its promise settles to, and the cache storage it
  leaves. A response that is not \<open>ok\<close> is thrown inside the \<open>try\<close> of the data and the
  navigation handler, so it takes their \<open>catch\<close> as a rejected fetch does.
\<close>

definition handleDataRequest_catch :: "request \<Rightarrow> CacheStorage \<Rightarrow> (error + response) \<times> CacheStorage" where
  "handleDataRequest_catch req cs =
     (case caches_match cs (url req) of
        Some cachedResponse \<Rightarrow> (Inr cachedResponse, cs)
      | None \<Rightarrow> (createOfflineResponse req, cs))"

definition handleDataRequest :: "sw_env \<Rightarrow> request \<Rightarrow> CacheStorage \<Rightarrow> (error + response) \<times> CacheStorage" where
  "handleDataRequest w req cs =
     (case net w req of
        Inr networkResponse \<Rightarrow>
          if ok networkResponse then
            (Inr networkResponse, cache_put w DATA_CACHE req networkResponse (caches_open DATA_CACHE cs))
          else handleDataRequest_catch req cs
      | Inl err \<Rightarrow> handleDataRequest_catch req cs)"

definition handleStaticRequest :: "sw_env \<Rightarrow> request \<Rightarrow> CacheStorage \<Rightarrow> (error + response) \<times> CacheStorage" where
  "handleStaticRequest w req cs =
     (case caches_match cs (url req) of
        Some cachedResponse \<Rightarrow> (Inr cachedResponse, cs)
      | None \<Rightarrow>
          (case net w req of
             Inr networkResponse \<Rightarrow>
               (Inr networkResponse,
                if ok networkResponse
                then cache_put w STATIC_CACHE req networkResponse (caches_open STATIC_CACHE cs)
                else cs)
           | Inl err \<Rightarrow> (createOfflineResponse req, cs)))"

definition handleNavigationRequest_catch :: "sw_env \<Rightarrow> request \<Rightarrow> CacheStorage \<Rightarrow> (error + response) \<times> CacheStorage" where
  "handleNavigationRequest_catch w req cs =
     (case caches_match cs (url req) of
        Some cachedResponse \<Rightarrow> (Inr cachedResponse, cs)
      | None \<Rightarrow>
          (case caches_match cs (origin w @ ''/index.html'') of
             Some indexResponse \<Rightarrow> (Inr indexResponse, cs)
           | None \<Rightarrow> (createOfflineResponse req, cs)))"

definition handleNavigationRequest :: "sw_env \<Rightarrow> request \<Rightarrow> CacheStorage \<Rightarrow> (error + response) \<times> CacheStorage" where
  "handleNavigationRequest w req cs =
     (case net w req of
        Inr networkResponse \<Rightarrow>
          if ok networkResponse then
            (Inr networkResponse, cache_put w STATIC_CACHE req networkResponse (caches_open STATIC_CACHE cs))
          else handleNavigationRequest_catch w req cs
      | Inl err \<Rightarrow> handleNavigationRequest_catch w req cs)"

definition handleGenericRequest :: "sw_env \<Rightarrow> request \<Rightarrow> CacheStorage \<Rightarrow> (error + response) \<times> CacheStorage" where
  "handleGenericRequest w req cs =
     (case net w req of
        Inr networkResponse \<Rightarrow>
          (Inr networkResponse,
           if ok networkResponse
           then cache_put w CACHE_NAME req networkResponse (caches_open CACHE_NAME cs)
           else cs)
      | Inl err \<Rightarrow>
          (case caches_match cs (url req) of
             Some cachedResponse \<Rightarrow> (Inr cachedResponse, cs)
           | None \<Rightarrow> (createOfflineResponse req, cs)))"

text \<open>
  The \<open>fetch\<close> listener. \<open>route\<close> is its \<open>if\<close> chain: the strategy a request is handed to, and
  \<open>None\<close> when the method is not \<open>GET\<close> and the listener returns without
  \<open>respondWith\<close>.
\<close>

datatype strategy = Data | Static | Navigation | Generic

definition route :: "request \<Rightarrow> strategy option" where
  "route r =
     (if method r = ''GET'' then
        (if isDataRequest r then Some Data
         else if isStaticResource r then Some Static
         else if isNavigationRequest r then Some Navigation
         else Some Generic)
      else None)"

definition on_fetch :: "sw_env \<Rightarrow> request \<Rightarrow> CacheStorage \<Rightarrow> ((error + response) \<times> CacheStorage) option" where
  "on_fetch w r cs =
     (case route r of
        None \<Rightarrow> None
      | Some Data \<Rightarrow> Some (handleDataRequest w r cs)
      | Some Static \<Rightarrow> Some (handleStaticRequest w r cs)
      | Some Navigation \<Rightarrow> Some (handleNavigationRequest w r cs)
      | Some Generic \<Rightarrow> Some (handleGenericRequest w r cs))"

text \<open>
  What the page gets for a request: the worker's answer, or, when the listener did not
  respond, the browser's own fetch.
\<close>

definition fetch_event :: "sw_env \<Rightarrow> request \<Rightarrow> CacheStorage \<Rightarrow> (error + response) \<times> CacheStorage" where
  "fetch_event w r cs = (case on_fetch w r cs of None \<Rightarrow> (net w r, cs) | Some answer \<Rightarrow> answer)"


text \<open>
  A reading of "well-formed markup": a scanner reads the tags with a stack of the open
  elements, and ends outside a tag with the stack empty. Every tag is closed in nesting order,
  the void elements and the doctype aside.
\<close>

definition void_tags :: "string list" where
  "void_tags = [''!DOCTYPE'', ''meta'', ''br'', ''link'', ''img'', ''input'', ''hr'']"

definition close_tag :: "string \<Rightarrow> string list \<Rightarrow> string list option" where
  "close_tag t stk =
     (let name = takeWhile (\<lambda>c. c \<noteq> CHR '' '') t
      in if name \<noteq> [] \<and> hd name = CHR ''/'' then
           (case stk of [] \<Rightarrow> None | t' # rest \<Rightarrow> if t' = tl name then Some rest else None)
         else if name \<in> set void_tags then Some stk
         else Some (name # stk))"

type_synonym tag_state = "string option \<times> string list"

definition tag_step :: "char \<Rightarrow> tag_state \<Rightarrow> tag_state option" where
  "tag_step c st =
     (case st of
        (None, stk) \<Rightarrow> if c = CHR ''<'' then Some (Some [], stk) else Some (None, stk)
      | (Some acc, stk) \<Rightarrow>
          if c = CHR ''>'' then map_option (Pair None) (close_tag (rev acc) stk)
          else if c = CHR ''<'' then None
          else Some (Some (c # acc), stk))"

fun scan_tags :: "string \<Rightarrow> tag_state \<Rightarrow> tag_state option" where
  "scan_tags [] st = Some st"
| "scan_tags (c # cs) st = (case tag_step c st of None \<Rightarrow> None | Some st' \<Rightarrow> scan_tags cs st')"

definition well_formed_markup :: "string \<Rightarrow> bool" where
  "well_formed_markup s = (scan_tags s (None, []) = Some (None, []))"

text \<open>The scanner over a list of lines, each followed by its line break.\<close>

fun scan_lines :: "string list \<Rightarrow> tag_state \<Rightarrow> tag_state option" where
  "scan_lines [] st = Some st"
| "scan_lines (l # ls) st =
     (case scan_tags (l @ ''\<newline>'') st of None \<Rightarrow> None | Some st' \<Rightarrow> scan_lines ls st')"

section \<open>Sample inputs\<close>

text \<open>
  Concrete environments, states and requests on which the theorems below are exercised. The
  platform's JSON is the model above.
\<close>

definition ok_response :: response where
  "ok_response = \<lparr>status = 200, statusText = ''OK'', resp_headers = [], body = ''[]''\<rparr>"

definition unavailable_response :: response where
  "unavailable_response =
     \<lparr>status = 503, statusText = ''Service Unavailable'', resp_headers = [], body = []\<rparr>"

text \<open>A network that rejects two requests and then answers; one that always answers 503.\<close>

definition flaky_env :: env where
  "flaky_env =
     \<lparr>fetch = (\<lambda>n u. if n < 2 then Inl (TypeError ''Failed to fetch'') else Inr ok_response),
      parse = JSON_parse, stringify = JSON_stringify, rejects = (\<lambda>store k v. False),
      Date_now = 1700000000000, render = (\<lambda>d. None)\<rparr>"

definition down_env :: env where
  "down_env = flaky_env\<lparr>fetch := (\<lambda>n u. Inr unavailable_response)\<rparr>"

text \<open>A network that rejects every request.\<close>

definition offline_env :: env where
  "offline_env = flaky_env\<lparr>fetch := (\<lambda>n u. Inl (TypeError ''Failed to fetch''))\<rparr>"

text \<open>A network that answers at once with one record, and a storage medium that is full.\<close>

definition full_env :: env where
  \<open>full_env =
     flaky_env\<lparr>fetch := (\<lambda>n u. Inr (ok_response\<lparr>body := ''[{"name": "Ann", "score": 72}]''\<rparr>)),
               rejects := (\<lambda>store k v. True)\<rparr>\<close>

text \<open>A browser storage that holds a cached collection of one record.\<close>

definition warm_store :: "string \<rightharpoonup> string" where
  \<open>warm_store = [''golf-tournaments'' \<mapsto> ''[{"name": "Ann", "score": 72}]'']\<close>

definition ann :: json where
  "ann = JObj [(''name'', JStr ''Ann''), (''score'', JNum 72)]"

definition bob :: json where
  "bob = JObj [(''name'', JStr ''Bob''), (''score'', JNum 70)]"

text \<open>A worker whose network rejects every request, and one whose network always answers.\<close>

definition sw_offline :: sw_env where
  "sw_offline =
     \<lparr>net = (\<lambda>r. Inl (TypeError ''Failed to fetch'')), origin = ''https://golf.example'',
      quota_exceeded = (\<lambda>req r. False)\<rparr>"

definition sw_online :: sw_env where
  "sw_online =
     \<lparr>net = (\<lambda>r. Inr ok_response), origin = ''https://golf.example'',
      quota_exceeded = (\<lambda>req r. False)\<rparr>"





text \<open>
  Requests: for the data file with a JSON Accept header, with no header at all, and as a
  \<open>POST\<close>; a page navigation; a navigation and a plain request for a URL no predicate
  matches; a script.
\<close>

definition json_request :: request where
  "json_request =
     \<lparr>url = ''https://golf.example/data/championships.json'', method = ''GET'', mode = ''cors'',
      req_headers = [(''accept'', ''application/json'')]\<rparr>"

definition bare_request :: request where
  "bare_request = json_request\<lparr>req_headers := []\<rparr>"

definition post_request :: request where
  "post_request = json_request\<lparr>method := ''POST''\<rparr>"

definition page_request :: request where
  "page_request =
     \<lparr>url = ''https://golf.example/'', method = ''GET'', mode = ''navigate'',
      req_headers = [(''accept'', ''text/html,application/xhtml+xml,application/xml;q=0.9,*/*;q=0.8'')]\<rparr>"

definition about_request :: request where
  "about_request =
     \<lparr>url = ''https://golf.example/about'', method = ''GET'', mode = ''navigate'',
      req_headers = [(''accept'', ''*/*'')]\<rparr>"

definition api_request :: request where
  "api_request = about_request\<lparr>mode := ''cors''\<rparr>"

definition script_request :: request where
  "script_request = json_request\<lparr>url := ''https://golf.example/app.js''\<rparr>"

text \<open>
  The cache storage after the install step has put the data file into the static cache and a
  later data request has put a newer payload into the data cache.
\<close>

definition stale_response :: response where
  \<open>stale_response = ok_response\<lparr>body := ''[{"name": "Ann", "score": 72}]''\<rparr>\<close>

definition fresh_response :: response where
  \<open>fresh_response = ok_response\<lparr>body := ''[{"name": "Bob", "score": 70}]''\<rparr>\<close>

definition shadowed_caches :: CacheStorage where
  "shadowed_caches =
     [(STATIC_CACHE, [(''https://golf.example/data/championships.json'', stale_response)]),
      (DATA_CACHE, [(''https://golf.example/data/championships.json'', fresh_response)])]"

section \<open>The retrying fetcher\<close>

lemma attempt_Inr_iff: "attempt e u n = Inr r \<longleftrightarrow> fetch e n u = Inr r \<and> ok r"
  by (auto simp: attempt_def split: sum.splits if_splits)

lemma attempt_not_ok:
  "fetch e n u = Inr r \<Longrightarrow> \<not> ok r \<Longrightarrow>
   attempt e u n = Inl (Error (''HTTP '' @ show_nat (status r) @ '': '' @ statusText r))"
  by (simp add: attempt_def)

lemma retry_success:
  assumes "i + k < maxRetries s"
    and "\<forall>j<k. isl (attempt e u (fetchCalls s + j))"
    and "attempt e u (fetchCalls s + k) = Inr r"
  shows "fst (fetchWithRetry_from e u i s) = Inr (Some r) \<and>
         fetchCalls (snd (fetchWithRetry_from e u i s)) = fetchCalls s + k + 1 \<and>
         maxRetries (snd (fetchWithRetry_from e u i s)) = maxRetries s \<and>
         localStorage (snd (fetchWithRetry_from e u i s)) = localStorage s \<and>
         connectionStatus (snd (fetchWithRetry_from e u i s)) = connectionStatus s"
  using assms
proof (induction k arbitrary: i s)
  case 0
  then show ?case
    by (simp add: fetchWithRetry_from.simps [of e u i s])
next
  case (Suc k)
  from Suc.prems(2) have "isl (attempt e u (fetchCalls s))" by force
  then obtain err where f0: "attempt e u (fetchCalls s) = Inl err" by (auto simp: isl_def)
  let ?s1 = "console_write WARN
               (''Fetch attempt '' @ show_nat (i + 1) @ '' failed: '' @ message err)
               (s\<lparr>fetchCalls := fetchCalls s + 1\<rparr>)"
  let ?s2 = "?s1\<lparr>delays := delays ?s1 @ [2 ^ i * 1000]\<rparr>"
  have step: "fetchWithRetry_from e u i s = fetchWithRetry_from e u (i + 1) ?s2"
    using Suc.prems(1) by (subst fetchWithRetry_from.simps) (simp add: f0 Let_def)
  have m: "maxRetries ?s2 = maxRetries s" and c: "fetchCalls ?s2 = fetchCalls s + 1"
    and l: "localStorage ?s2 = localStorage s" and cs: "connectionStatus ?s2 = connectionStatus s"
    by (simp_all add: console_write_def)
  have "\<forall>j<k. isl (attempt e u (fetchCalls ?s2 + j))"
  proof (intro allI impI)
    fix j assume "j < k"
    then have "Suc j < Suc k" by simp
    then have "isl (attempt e u (fetchCalls s + Suc j))" using Suc.prems(2) by blast
    then show "isl (attempt e u (fetchCalls ?s2 + j))" using c by simp
  qed
  moreover have "attempt e u (fetchCalls ?s2 + k) = Inr r" using Suc.prems(3) c by simp
  moreover have "i + 1 + k < maxRetries ?s2" using Suc.prems(1) m by simp
  ultimately show ?case using Suc.IH [of "i + 1" ?s2] step m c l cs by simp
qed

lemma retry_exhausted:
  assumes "i + k + 1 = maxRetries s"
    and "\<forall>j\<le>k. isl (attempt e u (fetchCalls s + j))"
  shows "fst (fetchWithRetry_from e u i s) = Inl (projl (attempt e u (fetchCalls s + k))) \<and>
         fetchCalls (snd (fetchWithRetry_from e u i s)) = fetchCalls s + k + 1 \<and>
         maxRetries (snd (fetchWithRetry_from e u i s)) = maxRetries s \<and>
         localStorage (snd (fetchWithRetry_from e u i s)) = localStorage s \<and>
         connectionStatus (snd (fetchWithRetry_from e u i s)) = connectionStatus s"
  using assms
proof (induction k arbitrary: i s)
  case 0
  then have "isl (attempt e u (fetchCalls s))" by simp
  then obtain err where f0: "attempt e u (fetchCalls s) = Inl err" by (auto simp: isl_def)
  from 0 show ?case
    by (subst (1 2 3 4 5) fetchWithRetry_from.simps) (simp add: f0 Let_def console_write_def)
next
  case (Suc k)
  from Suc.prems(2) have "isl (attempt e u (fetchCalls s))" by force
  then obtain err where f0: "attempt e u (fetchCalls s) = Inl err" by (auto simp: isl_def)
  let ?s1 = "console_write WARN
               (''Fetch attempt '' @ show_nat (i + 1) @ '' failed: '' @ message err)
               (s\<lparr>fetchCalls := fetchCalls s + 1\<rparr>)"
  let ?s2 = "?s1\<lparr>delays := delays ?s1 @ [2 ^ i * 1000]\<rparr>"
  have step: "fetchWithRetry_from e u i s = fetchWithRetry_from e u (i + 1) ?s2"
    using Suc.prems(1) by (subst fetchWithRetry_from.simps) (simp add: f0 Let_def)
  have m: "maxRetries ?s2 = maxRetries s" and c: "fetchCalls ?s2 = fetchCalls s + 1"
    and l: "localStorage ?s2 = localStorage s" and cs: "connectionStatus ?s2 = connectionStatus s"
    by (simp_all add: console_write_def)
  have "\<forall>j\<le>k. isl (attempt e u (fetchCalls ?s2 + j))"
  proof (intro allI impI)
    fix j assume "j \<le> k"
    then have "Suc j \<le> Suc k" by simp
    then have "isl (attempt e u (fetchCalls s + Suc j))" using Suc.prems(2) by blast
    then show "isl (attempt e u (fetchCalls ?s2 + j))" using c by simp
  qed
  moreover have "i + 1 + k + 1 = maxRetries ?s2" using Suc.prems(1) m by simp
  ultimately show ?case using Suc.IH [of "i + 1" ?s2] step m c l cs by simp
qed

text \<open>
  C4. With the constructor's three attempts: when the first \<open>k < 3\<close> attempts fail and the
  next succeeds, \<open>fetchWithRetry\<close> issues exactly \<open>k + 1\<close> requests and returns that
  response; when three attempts in a row fail it issues exactly three requests and throws the
  error of the third. An attempt succeeds exactly on an \<open>ok\<close> response, and a response that is
  not \<open>ok\<close> fails with the message \<open>HTTP <status>: <statusText>\<close>.
\<close>

theorem fetchWithRetry_attempts:
  "maxRetries s = 3 \<Longrightarrow>
   (k < 3 \<and> (\<forall>j<k. isl (attempt e u (fetchCalls s + j))) \<and> attempt e u (fetchCalls s + k) = Inr r
      \<longrightarrow> fst (fetchWithRetry e u s) = Inr (Some r) \<and>
          fetchCalls (snd (fetchWithRetry e u s)) = fetchCalls s + k + 1) \<and>
   ((\<forall>j<3. isl (attempt e u (fetchCalls s + j)))
      \<longrightarrow> (\<exists>err. attempt e u (fetchCalls s + 2) = Inl err \<and>
                 fst (fetchWithRetry e u s) = Inl err) \<and>
          fetchCalls (snd (fetchWithRetry e u s)) = fetchCalls s + 3) \<and>
   (attempt e u n = Inr r' \<longleftrightarrow> fetch e n u = Inr r' \<and> ok r') \<and>
   (fetch e n u = Inr r' \<and> \<not> ok r'
      \<longrightarrow> attempt e u n = Inl (Error (''HTTP '' @ show_nat (status r') @ '': '' @ statusText r')))"
proof (intro conjI impI)
  assume m: "maxRetries s = 3"
  { assume a: "k < 3 \<and> (\<forall>j<k. isl (attempt e u (fetchCalls s + j))) \<and>
               attempt e u (fetchCalls s + k) = Inr r"
    then have "0 + k < maxRetries s" using m by simp
    from retry_success [OF this] a
    show "fst (fetchWithRetry e u s) = Inr (Some r)"
      and "fetchCalls (snd (fetchWithRetry e u s)) = fetchCalls s + k + 1"
      by (simp_all add: fetchWithRetry_def) }
  { assume a: "\<forall>j<3. isl (attempt e u (fetchCalls s + j))"
    then have b: "\<forall>j\<le>2. isl (attempt e u (fetchCalls s + j))" by simp
    have "0 + 2 + 1 = maxRetries s" using m by simp
    note R = retry_exhausted [OF this b]
    have "isl (attempt e u (fetchCalls s + 2))" using a [rule_format, of 2] by simp
    then obtain err where e2: "attempt e u (fetchCalls s + 2) = Inl err" by (auto simp: isl_def)
    with R show "\<exists>err. attempt e u (fetchCalls s + 2) = Inl err \<and> fst (fetchWithRetry e u s) = Inl err"
      by (simp add: fetchWithRetry_def)
    from R show "fetchCalls (snd (fetchWithRetry e u s)) = fetchCalls s + 3"
      by (simp add: fetchWithRetry_def) }
  show "attempt e u n = Inr r' \<longleftrightarrow> fetch e n u = Inr r' \<and> ok r'" by (rule attempt_Inr_iff)
  { assume "fetch e n u = Inr r' \<and> \<not> ok r'"
    then show "attempt e u n = Inl (Error (''HTTP '' @ show_nat (status r') @ '': '' @ statusText r'))"
      by (simp add: attempt_not_ok) }
qed

text \<open>
  The theorem on the two sample networks: two rejections and a success make three requests;
  a server that always answers 503 makes three requests and the error \<open>HTTP 503\<close>.
\<close>

theorem fetchWithRetry_attempts_witness:
  "fst (fetchWithRetry flaky_env ''./data/championships.json'' (GolfDashboard Map.empty)) = Inr (Some ok_response) \<and>
   fetchCalls (snd (fetchWithRetry flaky_env ''./data/championships.json'' (GolfDashboard Map.empty))) = 3 \<and>
   fst (fetchWithRetry down_env ''./data/championships.json'' (GolfDashboard Map.empty)) =
     Inl (Error ''HTTP 503: Service Unavailable'') \<and>
   fetchCalls (snd (fetchWithRetry down_env ''./data/championships.json'' (GolfDashboard Map.empty))) = 3"
proof -
  let ?s = "GolfDashboard Map.empty" and ?u = "''./data/championships.json''"
  have m: "maxRetries ?s = 3" and c: "fetchCalls ?s = 0" by (simp_all add: GolfDashboard_def)
  have okr: "ok ok_response" and nok: "\<not> ok unavailable_response"
    by (simp_all add: ok_def ok_response_def unavailable_response_def)
  have f: "\<forall>j<2. isl (attempt flaky_env ?u (fetchCalls ?s + j))"
    by (simp add: attempt_def flaky_env_def c)
  have g: "attempt flaky_env ?u (fetchCalls ?s + 2) = Inr ok_response"
    by (simp add: attempt_def flaky_env_def c okr)
  have sn: "show_nat 503 = ''503''"
    by code_simp
  have "fetch down_env n ?u = Inr unavailable_response \<and> \<not> ok unavailable_response" for n
    by (simp add: down_env_def flaky_env_def nok)
  with fetchWithRetry_attempts [OF m, of 0 down_env ?u _ _ unavailable_response]
  have d: "attempt down_env ?u n = Inl (Error ''HTTP 503: Service Unavailable'')" for n
    by (simp add: unavailable_response_def sn)
  have h: "\<forall>j<3. isl (attempt down_env ?u (fetchCalls ?s + j))" by (simp add: d)
  from fetchWithRetry_attempts [OF m, of 2 flaky_env ?u ok_response] f g
  have 1: "fst (fetchWithRetry flaky_env ?u ?s) = Inr (Some ok_response) \<and>
           fetchCalls (snd (fetchWithRetry flaky_env ?u ?s)) = 3"
    by (simp add: c)
  from fetchWithRetry_attempts [OF m, of 0 down_env ?u] h
  have 2: "fst (fetchWithRetry down_env ?u ?s) = Inl (Error ''HTTP 503: Service Unavailable'') \<and>
           fetchCalls (snd (fetchWithRetry down_env ?u ?s)) = 3"
    by (simp add: c d)
  from 1 2 show ?thesis by simp
qed

section \<open>The data loader\<close>

lemma getCachedData_absent:
  "localStorage s ''golf-tournaments'' = None \<Longrightarrow> getCachedData e s = (JNull, s)"
  by (simp add: getCachedData_def)

lemma getCachedData_hit:
  "localStorage s ''golf-tournaments'' = Some cached \<Longrightarrow> cached \<noteq> [] \<Longrightarrow> parse e cached = Some d \<Longrightarrow>
   getCachedData e s = (d, s)"
  by (simp add: getCachedData_def)

lemma setCachedData_tournaments: "tournaments (setCachedData e d s) = tournaments s"
  by (auto simp: setCachedData_def setItem_def console_write_def split: sum.splits)

lemma setCachedData_fetchCalls: "fetchCalls (setCachedData e d s) = fetchCalls s"
  by (auto simp: setCachedData_def setItem_def console_write_def split: sum.splits)

lemma loadData_catch_absent:
  "localStorage s ''golf-tournaments'' = None \<Longrightarrow>
   fst (loadData_catch e err s) = Inl (Error ''No data available'') \<and>
   fetchCalls (snd (loadData_catch e err s)) = fetchCalls s"
  by (simp add: loadData_catch_def getCachedData_def console_write_def)

lemma loadData_catch_error:
  "fst (loadData_catch e err s) = Inl err' \<Longrightarrow> err' = Error ''No data available''"
  by (auto simp: loadData_catch_def Let_def split: prod.splits if_splits)

lemma loadData_error:
  "fst (loadData e s) = Inl err \<Longrightarrow> err = Error ''No data available''"
  by (auto simp: loadData_def Let_def split: prod.splits if_splits sum.splits option.splits
           dest: loadData_catch_error)

text \<open>
  C7. A cold start with the network down: with nothing under the collection's key and three
  failing attempts, \<open>loadData\<close> issues exactly three requests and throws
  \<open>No data available\<close>. And whatever the environment and the state, that is the only error
  \<open>loadData\<close> throws.
\<close>

theorem loadData_cold_start_offline:
  "(maxRetries s = 3 \<and> localStorage s ''golf-tournaments'' = None \<and>
    (\<forall>j<3. isl (attempt e ''./data/championships.json'' (fetchCalls s + j)))
      \<longrightarrow> fst (loadData e s) = Inl (Error ''No data available'') \<and>
          fetchCalls (snd (loadData e s)) = fetchCalls s + 3) \<and>
   (fst (loadData e' s') = Inl err \<longrightarrow> err = Error ''No data available'')"
proof (intro conjI impI)
  let ?u = "''./data/championships.json''"
  assume a: "maxRetries s = 3 \<and> localStorage s ''golf-tournaments'' = None \<and>
             (\<forall>j<3. isl (attempt e ?u (fetchCalls s + j)))"
  then have b: "\<forall>j\<le>2. isl (attempt e ?u (fetchCalls s + j))" by simp
  have "0 + 2 + 1 = maxRetries s" using a by simp
  note R = retry_exhausted [OF this b]
  obtain res s1 where f: "fetchWithRetry e ?u s = (res, s1)" by (cases "fetchWithRetry e ?u s")
  with R have res: "res = Inl (projl (attempt e ?u (fetchCalls s + 2)))"
    and c1: "fetchCalls s1 = fetchCalls s + 3" and l1: "localStorage s1 = localStorage s"
    by (simp_all add: fetchWithRetry_def)
  from l1 a have "localStorage s1 ''golf-tournaments'' = None" by simp
  note C = loadData_catch_absent [OF this, of e "projl (attempt e ?u (fetchCalls s + 2))"]
  have "loadData e s = loadData_catch e (projl (attempt e ?u (fetchCalls s + 2))) s1"
    using a f res by (simp add: loadData_def getCachedData_absent)
  with C c1 show "fst (loadData e s) = Inl (Error ''No data available'')"
    and "fetchCalls (snd (loadData e s)) = fetchCalls s + 3" by simp_all
next
  assume "fst (loadData e' s') = Inl err"
  then show "err = Error ''No data available''" by (rule loadData_error)
qed

text \<open>
  The theorem on a fresh dashboard over an empty storage, with a network that rejects every
  request.
\<close>

theorem loadData_cold_start_offline_witness:
  "fst (loadData offline_env (GolfDashboard Map.empty)) = Inl (Error ''No data available'') \<and>
   fetchCalls (snd (loadData offline_env (GolfDashboard Map.empty))) = 3 \<and>
   projl (fst (loadData offline_env (GolfDashboard Map.empty))) = Error ''No data available''"
proof -
  let ?s = "GolfDashboard Map.empty"
  have h: "maxRetries ?s = 3 \<and> localStorage ?s ''golf-tournaments'' = None \<and>
           (\<forall>j<3. isl (attempt offline_env ''./data/championships.json'' (fetchCalls ?s + j)))"
    by (simp add: GolfDashboard_def attempt_def offline_env_def flaky_env_def)
  have c: "fetchCalls ?s = 0" by (simp add: GolfDashboard_def)
  from loadData_cold_start_offline [of ?s offline_env offline_env ?s "Error ''No data available''"] h
  have 1: "fst (loadData offline_env ?s) = Inl (Error ''No data available'') \<and>
           fetchCalls (snd (loadData offline_env ?s)) = fetchCalls ?s + 3"
    by blast
  from loadData_cold_start_offline
         [of ?s offline_env offline_env ?s "projl (fst (loadData offline_env ?s))"] 1
  have 2: "projl (fst (loadData offline_env ?s)) = Error ''No data available''"
    by simp
  from 1 2 show ?thesis by (simp add: c)
qed

lemma loadData_fresh:
  assumes "k < maxRetries s" and "localStorage s ''golf-tournaments'' = None"
    and "\<forall>j<k. isl (attempt e ''./data/championships.json'' (fetchCalls s + j))"
    and "attempt e ''./data/championships.json'' (fetchCalls s + k) = Inr r"
    and "parse e (body r) = Some d"
  shows "fst (loadData e s) = Inr () \<and> tournaments (snd (loadData e s)) = d \<and>
         fetchCalls (snd (loadData e s)) = fetchCalls s + k + 1"
proof -
  let ?u = "''./data/championships.json''"
  have "0 + k < maxRetries s" using assms(1) by simp
  note R = retry_success [OF this assms(3) assms(4)]
  obtain res s1 where f: "fetchWithRetry e ?u s = (res, s1)" by (cases "fetchWithRetry e ?u s")
  with R have res: "res = Inr (Some r)" and c1: "fetchCalls s1 = fetchCalls s + k + 1"
    by (simp_all add: fetchWithRetry_def)
  have "loadData e s =
          (Inr (), console_write LOG ''Loaded fresh data and cached it''
                     (setCachedData e d (s1\<lparr>tournaments := d\<rparr>)))"
    using assms(2,5) f res by (simp add: loadData_def getCachedData_absent)
  then show ?thesis
    using c1 by (simp add: console_write_def setCachedData_tournaments setCachedData_fetchCalls)
qed

text \<open>
  C8. A write the medium rejects is caught in \<open>setCachedData\<close>: the state is the one before
  the write with a warning added to the console, and for any medium the collection in memory
  is untouched. So both operations that write complete whatever the medium does: a
  \<open>loadData\<close> that fetched a collection returns normally and holds it, and
  \<open>handleFormSubmit\<close> returns normally and holds the collection with the new record.
\<close>

theorem setCachedData_swallows:
  "(rejects e (localStorage s) ''golf-tournaments'' (stringify e d)
      \<longrightarrow> setCachedData e d s = console_write WARN ''Failed to cache data: QuotaExceededError'' s) \<and>
   tournaments (setCachedData e d s) = tournaments s \<and>
   (k < 3 \<and> maxRetries s = 3 \<and> localStorage s ''golf-tournaments'' = None \<and>
    (\<forall>j<k. isl (attempt e ''./data/championships.json'' (fetchCalls s + j))) \<and>
    attempt e ''./data/championships.json'' (fetchCalls s + k) = Inr r \<and> parse e (body r) = Some d'
      \<longrightarrow> fst (loadData e s) = Inr () \<and> tournaments (snd (loadData e s)) = d') \<and>
   (tournaments s = JArr ts \<and> render e (JArr (ts @ [t])) = None
      \<longrightarrow> (\<exists>s'. handleFormSubmit e t s = Inr s' \<and> tournaments s' = JArr (ts @ [t])))"
proof (intro conjI impI)
  assume "rejects e (localStorage s) ''golf-tournaments'' (stringify e d)"
  then show "setCachedData e d s = console_write WARN ''Failed to cache data: QuotaExceededError'' s"
    by (simp add: setCachedData_def setItem_def)
next
  show "tournaments (setCachedData e d s) = tournaments s" by (rule setCachedData_tournaments)
next
  assume a: "k < 3 \<and> maxRetries s = 3 \<and> localStorage s ''golf-tournaments'' = None \<and>
    (\<forall>j<k. isl (attempt e ''./data/championships.json'' (fetchCalls s + j))) \<and>
    attempt e ''./data/championships.json'' (fetchCalls s + k) = Inr r \<and> parse e (body r) = Some d'"
  then have "k < maxRetries s" by simp
  from loadData_fresh [OF this, of e r d'] a
  show "fst (loadData e s) = Inr ()" and "tournaments (snd (loadData e s)) = d'" by simp_all
next
  assume "tournaments s = JArr ts \<and> render e (JArr (ts @ [t])) = None"
  then show "\<exists>s'. handleFormSubmit e t s = Inr s' \<and> tournaments s' = JArr (ts @ [t])"
    by (simp add: handleFormSubmit_def renderDashboard_def Let_def setCachedData_tournaments)
qed

lemma parse_ann: \<open>JSON_parse ''[{"name": "Ann", "score": 72}]'' = Some (JArr [ann])\<close>
  unfolding ann_def by code_simp

text \<open>
  The theorem on a storage medium that rejects every write.
\<close>

theorem setCachedData_swallows_witness:
  "setCachedData full_env (JArr [ann]) (GolfDashboard Map.empty) =
     console_write WARN ''Failed to cache data: QuotaExceededError'' (GolfDashboard Map.empty) \<and>
   fst (loadData full_env (GolfDashboard Map.empty)) = Inr () \<and>
   tournaments (snd (loadData full_env (GolfDashboard Map.empty))) = JArr [ann] \<and>
   (\<exists>s'. handleFormSubmit full_env bob ((GolfDashboard Map.empty)\<lparr>tournaments := JArr [ann]\<rparr>) = Inr s' \<and>
         tournaments s' = JArr [ann, bob])"
proof -
  let ?s = "GolfDashboard Map.empty" and ?u = "''./data/championships.json''"
  let ?r = \<open>ok_response\<lparr>body := ''[{"name": "Ann", "score": 72}]''\<rparr>\<close>
  have 1: "rejects full_env (localStorage ?s) ''golf-tournaments'' (stringify full_env (JArr [ann]))"
    by (simp add: full_env_def flaky_env_def)
  have 2: "(0::nat) < 3 \<and> maxRetries ?s = 3 \<and> localStorage ?s ''golf-tournaments'' = None \<and>
           (\<forall>j<0. isl (attempt full_env ?u (fetchCalls ?s + j))) \<and>
           attempt full_env ?u (fetchCalls ?s + 0) = Inr ?r \<and> parse full_env (body ?r) = Some (JArr [ann])"
    by (simp add: GolfDashboard_def attempt_def full_env_def flaky_env_def ok_def ok_response_def parse_ann)
  have 3: "tournaments (?s\<lparr>tournaments := JArr [ann]\<rparr>) = JArr [ann] \<and>
           render full_env (JArr ([ann] @ [bob])) = None"
    by (simp add: full_env_def flaky_env_def)
  from setCachedData_swallows [of full_env ?s "JArr [ann]" 0 ?r "JArr [ann]" "[ann]" bob] 1 2
  have A: "setCachedData full_env (JArr [ann]) ?s =
             console_write WARN ''Failed to cache data: QuotaExceededError'' ?s \<and>
           fst (loadData full_env ?s) = Inr () \<and> tournaments (snd (loadData full_env ?s)) = JArr [ann]"
    by blast
  from setCachedData_swallows [of full_env "?s\<lparr>tournaments := JArr [ann]\<rparr>" "JArr [ann]" 0 ?r "JArr [ann]" "[ann]" bob] 3
  have B: "\<exists>s'. handleFormSubmit full_env bob (?s\<lparr>tournaments := JArr [ann]\<rparr>) = Inr s' \<and>
             tournaments s' = JArr [ann, bob]"
    by simp
  from A B show ?thesis by blast
qed

text \<open>
  C1, as the code has it. \<open>refreshData\<close> calls \<open>loadData\<close>, which returns the cached
  collection before any request: when the storage holds a collection (and the view renders
  it), \<open>refreshData\<close> leaves that collection in memory, issues no network request at all, and
  ends with the connection status \<open>online\<close>.
\<close>

theorem refreshData_cache_first:
  "localStorage s ''golf-tournaments'' = Some cached \<and> cached \<noteq> [] \<and>
   parse e cached = Some (JArr recs) \<and> render e (JArr recs) = None
     \<longrightarrow> tournaments (refreshData e s) = JArr recs \<and>
         fetchCalls (refreshData e s) = fetchCalls s \<and>
         connectionStatus (refreshData e s) = ''online'' \<and>
         localStorage (refreshData e s) = localStorage s"
proof
  assume a: "localStorage s ''golf-tournaments'' = Some cached \<and> cached \<noteq> [] \<and>
             parse e cached = Some (JArr recs) \<and> render e (JArr recs) = None"
  let ?s0 = "showConnectionStatus ''reconnecting'' s"
  have "localStorage ?s0 ''golf-tournaments'' = Some cached" using a by (simp add: showConnectionStatus_def)
  then have g: "getCachedData e ?s0 = (JArr recs, ?s0)" using a by (simp add: getCachedData_hit)
  have l: "loadData e ?s0 =
             (Inr (), console_write LOG ''Loaded data from cache'' (?s0\<lparr>tournaments := JArr recs\<rparr>))"
    by (simp add: loadData_def g)
  show "tournaments (refreshData e s) = JArr recs \<and>
         fetchCalls (refreshData e s) = fetchCalls s \<and>
         connectionStatus (refreshData e s) = ''online'' \<and>
         localStorage (refreshData e s) = localStorage s"
    unfolding refreshData_def l
    using a by (simp add: renderDashboard_def console_write_def showConnectionStatus_def)
qed

text \<open>
  The theorem on a storage holding one record, with a network that rejects every request.
\<close>

theorem refreshData_cache_first_witness:
  "tournaments (refreshData offline_env (GolfDashboard warm_store)) = JArr [ann] \<and>
   fetchCalls (refreshData offline_env (GolfDashboard warm_store)) = 0 \<and>
   connectionStatus (refreshData offline_env (GolfDashboard warm_store)) = ''online''"
proof -
  let ?s = "GolfDashboard warm_store"
  let ?c = \<open>''[{"name": "Ann", "score": 72}]''\<close>
  have h: "localStorage ?s ''golf-tournaments'' = Some ?c \<and> ?c \<noteq> [] \<and>
           parse offline_env ?c = Some (JArr [ann]) \<and> render offline_env (JArr [ann]) = None"
    by (simp add: GolfDashboard_def warm_store_def offline_env_def flaky_env_def parse_ann)
  have c: "fetchCalls ?s = 0" by (simp add: GolfDashboard_def)
  from refreshData_cache_first [of ?s ?c offline_env "[ann]"] h
  have "tournaments (refreshData offline_env ?s) = JArr [ann] \<and>
        fetchCalls (refreshData offline_env ?s) = fetchCalls ?s \<and>
        connectionStatus (refreshData offline_env ?s) = ''online''"
    by blast
  then show ?thesis by (simp only: c)
qed

text \<open>
  C1 as stated fails on that input: the network would reject every request and the storage
  holds a collection, yet \<open>refreshData\<close> issues no request and does not end \<open>offline\<close>.
\<close>

theorem refreshData_prefers_network_counterexample:
  "fetchCalls (refreshData offline_env (GolfDashboard warm_store)) = 0 \<and>
   connectionStatus (refreshData offline_env (GolfDashboard warm_store)) = ''online'' \<and>
   \<not> (fetchCalls (GolfDashboard warm_store) < fetchCalls (refreshData offline_env (GolfDashboard warm_store)) \<and>
      connectionStatus (refreshData offline_env (GolfDashboard warm_store)) = ''offline'')"
proof -
  let ?s0 = "showConnectionStatus ''reconnecting'' (GolfDashboard warm_store)"
  have g: "getCachedData offline_env ?s0 = (JArr [ann], ?s0)"
    by (simp add: getCachedData_def showConnectionStatus_def GolfDashboard_def warm_store_def
        offline_env_def flaky_env_def parse_ann)
  have l: "loadData offline_env ?s0 =
             (Inr (), console_write LOG ''Loaded data from cache'' (?s0\<lparr>tournaments := JArr [ann]\<rparr>))"
    by (simp add: loadData_def g)
  have "fetchCalls (refreshData offline_env (GolfDashboard warm_store)) = 0"
    and "connectionStatus (refreshData offline_env (GolfDashboard warm_store)) = ''online''"
    unfolding refreshData_def l
    by (simp_all add: renderDashboard_def console_write_def showConnectionStatus_def
        GolfDashboard_def offline_env_def flaky_env_def)
  then show ?thesis by simp
qed

section \<open>Strings\<close>

lemma includes_str_sublist: "includes_str s t \<longleftrightarrow> sublist t s"
  by (induction s) (auto simp: sublist_Cons_right)

lemma endsWith_includes:
  "endsWith s (t @ t') \<Longrightarrow> includes_str s t"
  unfolding endsWith_def includes_str_sublist suffix_def sublist_def by auto

section \<open>Cache storage\<close>


lemma map_of_write_entry_other:
  "n \<noteq> name \<Longrightarrow> map_of (write_entry name req r cs) n = map_of cs n"
  by (induction cs) auto


lemma map_of_caches_open_other:
  "n \<noteq> name \<Longrightarrow> map_of (caches_open name cs) n = map_of cs n"
  by (auto simp: caches_open_def map_of_append map_add_def split: option.splits)


lemma cache_of_write_other:
  "n \<noteq> name \<Longrightarrow> cache_of (cache_put w name req r (caches_open name cs)) n = cache_of cs n"
  by (simp add: cache_of_def cache_put_def map_of_write_entry_other map_of_caches_open_other)





section \<open>The offline responder\<close>

lemma scan_tags_append:
  "scan_tags (xs @ ys) st = (case scan_tags xs st of None \<Rightarrow> None | Some st' \<Rightarrow> scan_tags ys st')"
  by (induction xs arbitrary: st) (auto split: option.splits)

lemma scan_tags_lines:
  "scan_tags (concat (map (\<lambda>l. l @ ''\<newline>'') ls)) st = scan_lines ls st"
  by (induction ls arbitrary: st) (auto simp: scan_tags_append split: option.splits)

lemma retry_line_in_page:
  \<open>''                    <button class="retry-btn" onclick="window.location.reload()">'' \<in> set offline_page_lines\<close>
  unfolding offline_page_lines_def by simp

lemma retry_button_in_line:
  \<open>sublist ''<button class="retry-btn" onclick="window.location.reload()">''
     ''                    <button class="retry-btn" onclick="window.location.reload()">''\<close>
  unfolding includes_str_sublist [symmetric] by code_simp

lemma sublist_line:
  assumes "l \<in> set ls" and "sublist t l"
  shows "sublist t (pre @ concat (map (\<lambda>l. l @ nl) ls) @ post)"
proof -
  from assms(1) obtain as bs where "ls = as @ l # bs" by (auto dest: split_list)
  then have "pre @ concat (map (\<lambda>l. l @ nl) ls) @ post =
             (pre @ concat (map (\<lambda>l. l @ nl) as)) @ l @ (nl @ concat (map (\<lambda>l. l @ nl) bs) @ post)"
    by simp
  then have "sublist l (pre @ concat (map (\<lambda>l. l @ nl) ls) @ post)"
    unfolding sublist_def by blast
  with assms(2) show ?thesis by (rule sublist_order.order_trans)
qed

lemma offline_html_retry:
  \<open>includes_str offline_html ''<button class="retry-btn" onclick="window.location.reload()">''\<close>
  unfolding includes_str_sublist offline_html_def
  by (rule sublist_line [OF retry_line_in_page retry_button_in_line])

lemma offline_json_parses:
  \<open>JSON_parse ''{"error": "Offline", "data": []}'' = Some (JObj [(''error'', JStr ''Offline''), (''data'', JArr [])])\<close>
  by code_simp

lemma lines_ok: "scan_lines offline_page_lines (None, []) = Some (None, [])"
  unfolding offline_page_lines_def
  by (simp add: tag_step_def close_tag_def void_tags_def)

lemma offline_html_well_formed: "well_formed_markup offline_html"
  unfolding well_formed_markup_def offline_html_def
  by (simp add: scan_tags_append scan_tags_lines lines_ok tag_step_def)

text \<open>
  C2, as the code has it. When the Accept header names \<open>text/html\<close> the offline response
  is a 200 whose body is well-formed markup holding the retry button. When it names
  \<open>application/json\<close> and not \<open>text/html\<close>, the offline response is a 200 whose body
  parses as a JSON object with an \<open>error\<close> field \<open>Offline\<close> and a \<open>data\<close> field holding
  an array of zero records.
\<close>

theorem createOfflineResponse_kinds:
  \<open>(headers_get r ''accept'' = Some a \<and> includes_str a ''text/html''
      \<longrightarrow> (\<exists>resp. createOfflineResponse r = Inr resp \<and> status resp = 200 \<and>
                  map_of (resp_headers resp) ''Content-Type'' = Some ''text/html'' \<and>
                  well_formed_markup (body resp) \<and>
                  includes_str (body resp) ''<button class="retry-btn" onclick="window.location.reload()">'')) \<and>
   (headers_get r ''accept'' = Some a \<and> \<not> includes_str a ''text/html'' \<and> includes_str a ''application/json''
      \<longrightarrow> (\<exists>resp. createOfflineResponse r = Inr resp \<and> status resp = 200 \<and>
                  map_of (resp_headers resp) ''Content-Type'' = Some ''application/json'' \<and>
                  JSON_parse (body resp) = Some (JObj [(''error'', JStr ''Offline''), (''data'', JArr [])])))\<close>
  by (simp add: createOfflineResponse_def offline_html_well_formed offline_html_retry offline_json_parses)

text \<open>
  The theorem on a page navigation and on a request for JSON.
\<close>

theorem createOfflineResponse_kinds_witness:
  \<open>(\<exists>resp. createOfflineResponse page_request = Inr resp \<and> status resp = 200 \<and>
           well_formed_markup (body resp) \<and>
           includes_str (body resp) ''<button class="retry-btn" onclick="window.location.reload()">'') \<and>
   (\<exists>resp. createOfflineResponse json_request = Inr resp \<and> status resp = 200 \<and>
           JSON_parse (body resp) = Some (JObj [(''error'', JStr ''Offline''), (''data'', JArr [])]))\<close>
proof -
  let ?h = "''text/html,application/xhtml+xml,application/xml;q=0.9,*/*;q=0.8''"
  have 1: "headers_get page_request ''accept'' = Some ?h \<and> includes_str ?h ''text/html''"
    by (simp add: headers_get_def page_request_def)
  have 2: "headers_get json_request ''accept'' = Some ''application/json'' \<and>
           \<not> includes_str ''application/json'' ''text/html'' \<and>
           includes_str ''application/json'' ''application/json''"
    by (simp add: headers_get_def json_request_def)
  from createOfflineResponse_kinds [of page_request ?h] 1
       createOfflineResponse_kinds [of json_request "''application/json''"] 2
  show ?thesis by blast
qed

text \<open>
  C2 as stated fails on the request for JSON: the body parses, but as an object, not as the
  empty array of records that a successful payload of no records is.
\<close>

theorem offline_json_counterexample:
  \<open>createOfflineResponse json_request =
     Inr \<lparr>status = 200, statusText = [],
          resp_headers = [(''Content-Type'', ''application/json''), (''Cache-Control'', ''no-cache'')],
          body = ''{"error": "Offline", "data": []}''\<rparr> \<and>
   JSON_parse ''{"error": "Offline", "data": []}'' = Some (JObj [(''error'', JStr ''Offline''), (''data'', JArr [])]) \<and>
   JSON_parse ''{"error": "Offline", "data": []}'' \<noteq> Some (JArr [])\<close>
  by (simp add: createOfflineResponse_def headers_get_def json_request_def offline_json_parses)

text \<open>
  C3 fails on the code. For a data request that has no Accept header, with the network down
  and nothing cached, \<open>createOfflineResponse\<close> throws a \<open>TypeError\<close>, the handler's promise
  is rejected with it, and the page gets no response.
\<close>

theorem createOfflineResponse_without_accept:
  "headers_get bare_request ''accept'' = None \<and>
   createOfflineResponse bare_request = Inl (TypeError ''Cannot read properties of null (reading 'includes')'') \<and>
   route bare_request = Some Data \<and>
   fetch_event sw_offline bare_request [] =
     (Inl (TypeError ''Cannot read properties of null (reading 'includes')''), [])"
proof -
  have h: "headers_get bare_request ''accept'' = None"
    by (simp add: headers_get_def bare_request_def json_request_def)
  have c: "createOfflineResponse bare_request = Inl (TypeError ''Cannot read properties of null (reading 'includes')'')"
    by (simp add: createOfflineResponse_def h)
  have d: "isDataRequest bare_request"
    by (simp add: isDataRequest_def bare_request_def json_request_def endsWith_def suffix_to_prefix)
  have r: "route bare_request = Some Data"
    using d by (simp add: route_def bare_request_def json_request_def)
  have "fetch_event sw_offline bare_request [] =
          (Inl (TypeError ''Cannot read properties of null (reading 'includes')''), [])"
    by (simp add: fetch_event_def on_fetch_def r handleDataRequest_def handleDataRequest_catch_def
        sw_offline_def c)
  with h c r show ?thesis by simp
qed

section \<open>The router\<close>

text \<open>
  C5, as the code has it. The strategy is a function of the method, the URL, the mode and the
  Accept header: two requests that agree on these four are routed alike, whatever else
  differs. For a \<open>GET\<close> the data check comes first, then the static check, then the
  navigation check, else generic; another method is not routed at all. A \<open>.json\<close> URL under
  the data path satisfies the static check as well, and is routed to the data strategy.
\<close>

theorem route_precedence:
  "(method r = method r' \<and> url r = url r' \<and> mode r = mode r' \<and>
    headers_get r ''accept'' = headers_get r' ''accept'' \<longrightarrow> route r = route r') \<and>
   (method r = ''GET'' \<and> isDataRequest r \<longrightarrow> route r = Some Data) \<and>
   (method r = ''GET'' \<and> \<not> isDataRequest r \<and> isStaticResource r \<longrightarrow> route r = Some Static) \<and>
   (method r = ''GET'' \<and> \<not> isDataRequest r \<and> \<not> isStaticResource r \<and> isNavigationRequest r
      \<longrightarrow> route r = Some Navigation) \<and>
   (method r = ''GET'' \<and> \<not> isDataRequest r \<and> \<not> isStaticResource r \<and> \<not> isNavigationRequest r
      \<longrightarrow> route r = Some Generic) \<and>
   (method r \<noteq> ''GET'' \<longrightarrow> route r = None) \<and>
   (method r = ''GET'' \<and> includes_str (url r) ''/data/'' \<and> endsWith (url r) ''.json''
      \<longrightarrow> isStaticResource r \<and> route r = Some Data)"
proof (intro conjI impI)
  assume "method r = method r' \<and> url r = url r' \<and> mode r = mode r' \<and>
          headers_get r ''accept'' = headers_get r' ''accept''"
  then show "route r = route r'"
    by (simp add: route_def isDataRequest_def isStaticResource_def isNavigationRequest_def)
next
  assume a: "method r = ''GET'' \<and> includes_str (url r) ''/data/'' \<and> endsWith (url r) ''.json''"
  then have "endsWith (url r) (''.js'' @ ''on'')" by simp
  then have "includes_str (url r) ''.js''" by (rule endsWith_includes)
  then show "isStaticResource r" by (simp add: isStaticResource_def)
  from a show "route r = Some Data" by (simp add: route_def isDataRequest_def)
qed (simp_all add: route_def)

text \<open>
  The theorem on one request of each kind, and on a data request with one more header.
\<close>

theorem route_precedence_witness:
  "route json_request = Some Data \<and> isStaticResource json_request \<and>
   route (json_request\<lparr>url := ''https://golf.example/app.js''\<rparr>) = Some Static \<and>
   route page_request = Some Navigation \<and>
   route (about_request\<lparr>mode := ''cors''\<rparr>) = Some Generic \<and>
   route post_request = None \<and>
   route (json_request\<lparr>req_headers := (''cache-control'', ''no-cache'') # req_headers json_request\<rparr>) = Some Data"
proof -
  have 1: "method json_request = ''GET'' \<and> includes_str (url json_request) ''/data/'' \<and>
           endsWith (url json_request) ''.json''"
    by (simp add: json_request_def endsWith_def suffix_to_prefix)
  let ?js = "json_request\<lparr>url := ''https://golf.example/app.js''\<rparr>"
  have 2: "method ?js = ''GET'' \<and> \<not> isDataRequest ?js \<and> isStaticResource ?js"
    by (simp add: json_request_def isDataRequest_def isStaticResource_def endsWith_def suffix_to_prefix)
  have 3: "method page_request = ''GET'' \<and> \<not> isDataRequest page_request \<and>
           \<not> isStaticResource page_request \<and> isNavigationRequest page_request"
    by (simp add: page_request_def isDataRequest_def isStaticResource_def isNavigationRequest_def
        endsWith_def suffix_to_prefix)
  let ?ab = "about_request\<lparr>mode := ''cors''\<rparr>"
  have 4: "method ?ab = ''GET'' \<and> \<not> isDataRequest ?ab \<and> \<not> isStaticResource ?ab \<and>
           \<not> isNavigationRequest ?ab"
    by (simp add: about_request_def isDataRequest_def isStaticResource_def isNavigationRequest_def
        endsWith_def suffix_to_prefix headers_get_def)
  have 5: "method post_request \<noteq> ''GET''" by (simp add: post_request_def)
  let ?jh = "json_request\<lparr>req_headers := (''cache-control'', ''no-cache'') # req_headers json_request\<rparr>"
  have 6: "method ?jh = method json_request \<and> url ?jh = url json_request \<and> mode ?jh = mode json_request \<and>
           headers_get ?jh ''accept'' = headers_get json_request ''accept''"
    by (simp add: headers_get_def)
  from route_precedence [of json_request] 1
  have a: "route json_request = Some Data \<and> isStaticResource json_request" by blast
  from route_precedence [of ?js] 2 have b: "route ?js = Some Static" by blast
  from route_precedence [of page_request] 3 have c: "route page_request = Some Navigation" by blast
  from route_precedence [of ?ab] 4 have d: "route ?ab = Some Generic" by blast
  from route_precedence [of post_request] 5 have e: "route post_request = None" by blast
  from route_precedence [of ?jh json_request] 6 a have f: "route ?jh = Some Data" by simp
  from a b c d e f show ?thesis by simp
qed

text \<open>
  C5 as stated fails: two requests with the same method, URL and headers are routed
  differently, because one is a navigation by its mode; and a \<open>POST\<close> for the data file gets
  no strategy.
\<close>

theorem route_reads_mode_counterexample:
  "method about_request = method (about_request\<lparr>mode := ''cors''\<rparr>) \<and>
   url about_request = url (about_request\<lparr>mode := ''cors''\<rparr>) \<and>
   req_headers about_request = req_headers (about_request\<lparr>mode := ''cors''\<rparr>) \<and>
   route about_request = Some Navigation \<and>
   route (about_request\<lparr>mode := ''cors''\<rparr>) = Some Generic \<and>
   isDataRequest post_request \<and> route post_request = None"
  by (simp add: about_request_def post_request_def json_request_def route_def isDataRequest_def
      isStaticResource_def isNavigationRequest_def endsWith_def suffix_to_prefix headers_get_def)

text \<open>
  C10. For a request whose method is not \<open>GET\<close> the listener does not respond: no handler
  runs, the page gets what the network gives, and the cache storage is as it was.
\<close>

theorem non_GET_passes_through:
  "method r \<noteq> ''GET''
     \<longrightarrow> on_fetch w r cs = None \<and> fetch_event w r cs = (net w r, cs)"
  by (simp add: fetch_event_def on_fetch_def route_def)

text \<open>
  The theorem on a \<open>POST\<close> for the data file, with both caches holding an entry for its URL.
\<close>

theorem non_GET_passes_through_witness:
  "on_fetch sw_online post_request shadowed_caches = None \<and>
   fetch_event sw_online post_request shadowed_caches = (Inr ok_response, shadowed_caches)"
proof -
  have "method post_request \<noteq> ''GET''" by (simp add: post_request_def)
  with non_GET_passes_through [of post_request sw_online shadowed_caches]
  show ?thesis by (simp add: sw_online_def)
qed

section \<open>The caching strategies\<close>







lemma handler_writes:
  "\<forall>n. n \<noteq> DATA_CACHE \<longrightarrow> cache_of (snd (handleDataRequest w r cs)) n = cache_of cs n"
  "\<forall>n. n \<noteq> STATIC_CACHE \<longrightarrow> cache_of (snd (handleStaticRequest w r cs)) n = cache_of cs n"
  "\<forall>n. n \<noteq> STATIC_CACHE \<longrightarrow> cache_of (snd (handleNavigationRequest w r cs)) n = cache_of cs n"
  "\<forall>n. n \<noteq> CACHE_NAME \<longrightarrow> cache_of (snd (handleGenericRequest w r cs)) n = cache_of cs n"
  by (auto simp: handleDataRequest_def handleDataRequest_catch_def handleStaticRequest_def
      handleNavigationRequest_def handleNavigationRequest_catch_def handleGenericRequest_def
      cache_of_write_other split: sum.splits option.splits)

text \<open>
  C9, as the code has it. Whatever a handler answers, it changes the entries of one cache at
  most: the data strategy those of the data cache, the static and the navigation strategy
  those of the static cache, the generic strategy those of the general cache. So the data
  cache is written by the data strategy only, and the static cache by the static and the
  navigation strategy only.
\<close>

theorem namespace_writers:
  "on_fetch w r cs = Some (res, cs')
     \<longrightarrow> (route r = Some Data \<longrightarrow> (\<forall>n. n \<noteq> DATA_CACHE \<longrightarrow> cache_of cs' n = cache_of cs n)) \<and>
         (route r = Some Static \<or> route r = Some Navigation
            \<longrightarrow> (\<forall>n. n \<noteq> STATIC_CACHE \<longrightarrow> cache_of cs' n = cache_of cs n)) \<and>
         (route r = Some Generic \<longrightarrow> (\<forall>n. n \<noteq> CACHE_NAME \<longrightarrow> cache_of cs' n = cache_of cs n)) \<and>
         (route r \<noteq> Some Data \<longrightarrow> cache_of cs' DATA_CACHE = cache_of cs DATA_CACHE) \<and>
         (route r \<noteq> Some Static \<and> route r \<noteq> Some Navigation
            \<longrightarrow> cache_of cs' STATIC_CACHE = cache_of cs STATIC_CACHE)"
proof
  assume a: "on_fetch w r cs = Some (res, cs')"
  have names: "DATA_CACHE \<noteq> STATIC_CACHE" "DATA_CACHE \<noteq> CACHE_NAME" "STATIC_CACHE \<noteq> CACHE_NAME"
    by (simp_all add: DATA_CACHE_def STATIC_CACHE_def CACHE_NAME_def)
  show "(route r = Some Data \<longrightarrow> (\<forall>n. n \<noteq> DATA_CACHE \<longrightarrow> cache_of cs' n = cache_of cs n)) \<and>
         (route r = Some Static \<or> route r = Some Navigation
            \<longrightarrow> (\<forall>n. n \<noteq> STATIC_CACHE \<longrightarrow> cache_of cs' n = cache_of cs n)) \<and>
         (route r = Some Generic \<longrightarrow> (\<forall>n. n \<noteq> CACHE_NAME \<longrightarrow> cache_of cs' n = cache_of cs n)) \<and>
         (route r \<noteq> Some Data \<longrightarrow> cache_of cs' DATA_CACHE = cache_of cs DATA_CACHE) \<and>
         (route r \<noteq> Some Static \<and> route r \<noteq> Some Navigation
            \<longrightarrow> cache_of cs' STATIC_CACHE = cache_of cs STATIC_CACHE)"
  proof (cases "route r")
    case None
    with a show ?thesis by (simp add: on_fetch_def)
  next
    case (Some st)
    show ?thesis
    proof (cases st)
      case Data
      with a Some have "cs' = snd (handleDataRequest w r cs)" by (auto simp: on_fetch_def)
      with handler_writes(1) [of w r cs] Some Data names show ?thesis by auto
    next
      case Static
      with a Some have "cs' = snd (handleStaticRequest w r cs)" by (auto simp: on_fetch_def)
      with handler_writes(2) [of w r cs] Some Static names show ?thesis by auto
    next
      case Navigation
      with a Some have "cs' = snd (handleNavigationRequest w r cs)" by (auto simp: on_fetch_def)
      with handler_writes(3) [of w r cs] Some Navigation names show ?thesis by auto
    next
      case Generic
      with a Some have "cs' = snd (handleGenericRequest w r cs)" by (auto simp: on_fetch_def)
      with handler_writes(4) [of w r cs] Some Generic names show ?thesis by auto
    qed
  qed
qed


lemma route_samples:
  "route json_request = Some Data" "route script_request = Some Static"
  "route page_request = Some Navigation" "route api_request = Some Generic"
  by (simp_all add: json_request_def script_request_def page_request_def api_request_def
      about_request_def route_def isDataRequest_def isStaticResource_def isNavigationRequest_def
      endsWith_def suffix_to_prefix headers_get_def)

lemma on_fetch_samples:
  "on_fetch sw_online json_request [] =
     Some (Inr ok_response, [(DATA_CACHE, [(url json_request, ok_response)])])"
  "on_fetch sw_online script_request [] =
     Some (Inr ok_response, [(STATIC_CACHE, [(url script_request, ok_response)])])"
  "on_fetch sw_online page_request [] =
     Some (Inr ok_response, [(STATIC_CACHE, [(url page_request, ok_response)])])"
  "on_fetch sw_online api_request [] =
     Some (Inr ok_response, [(CACHE_NAME, [(url api_request, ok_response)])])"
  unfolding on_fetch_def route_samples
  by (simp_all add: handleDataRequest_def handleStaticRequest_def handleNavigationRequest_def
      handleGenericRequest_def sw_online_def ok_def ok_response_def caches_open_def
      cache_put_def put_accepted_def vary_fields_def json_request_def script_request_def
      page_request_def api_request_def about_request_def
      DATA_CACHE_def STATIC_CACHE_def CACHE_NAME_def)

text \<open>
  The theorem on one request of each kind, with the network up and no cache yet.
\<close>

theorem namespace_writers_witness:
  "on_fetch sw_online json_request [] =
     Some (Inr ok_response, [(DATA_CACHE, [(url json_request, ok_response)])]) \<and>
   cache_of [(DATA_CACHE, [(url json_request, ok_response)])] STATIC_CACHE = cache_of [] STATIC_CACHE \<and>
   on_fetch sw_online script_request [] =
     Some (Inr ok_response, [(STATIC_CACHE, [(url script_request, ok_response)])]) \<and>
   cache_of [(STATIC_CACHE, [(url script_request, ok_response)])] DATA_CACHE = cache_of [] DATA_CACHE \<and>
   on_fetch sw_online page_request [] =
     Some (Inr ok_response, [(STATIC_CACHE, [(url page_request, ok_response)])]) \<and>
   cache_of [(STATIC_CACHE, [(url page_request, ok_response)])] DATA_CACHE = cache_of [] DATA_CACHE \<and>
   on_fetch sw_online api_request [] =
     Some (Inr ok_response, [(CACHE_NAME, [(url api_request, ok_response)])]) \<and>
   cache_of [(CACHE_NAME, [(url api_request, ok_response)])] DATA_CACHE = cache_of [] DATA_CACHE \<and>
   cache_of [(CACHE_NAME, [(url api_request, ok_response)])] STATIC_CACHE = cache_of [] STATIC_CACHE"
proof -
  have names: "DATA_CACHE \<noteq> STATIC_CACHE" "CACHE_NAME \<noteq> STATIC_CACHE" "DATA_CACHE \<noteq> CACHE_NAME"
    by (simp_all add: DATA_CACHE_def STATIC_CACHE_def CACHE_NAME_def)
  from namespace_writers [of sw_online json_request "[]" "Inr ok_response"
      "[(DATA_CACHE, [(url json_request, ok_response)])]"] on_fetch_samples(1) route_samples(1) names
  have a: "cache_of [(DATA_CACHE, [(url json_request, ok_response)])] STATIC_CACHE = cache_of [] STATIC_CACHE"
    by simp
  from namespace_writers [of sw_online script_request "[]" "Inr ok_response"
      "[(STATIC_CACHE, [(url script_request, ok_response)])]"] on_fetch_samples(2) route_samples(2) names
  have b: "cache_of [(STATIC_CACHE, [(url script_request, ok_response)])] DATA_CACHE = cache_of [] DATA_CACHE"
    by simp
  from namespace_writers [of sw_online page_request "[]" "Inr ok_response"
      "[(STATIC_CACHE, [(url page_request, ok_response)])]"] on_fetch_samples(3) route_samples(3) names
  have c: "cache_of [(STATIC_CACHE, [(url page_request, ok_response)])] DATA_CACHE = cache_of [] DATA_CACHE"
    by simp
  from namespace_writers [of sw_online api_request "[]" "Inr ok_response"
      "[(CACHE_NAME, [(url api_request, ok_response)])]"] on_fetch_samples(4) route_samples(4) names
  have d: "cache_of [(CACHE_NAME, [(url api_request, ok_response)])] DATA_CACHE = cache_of [] DATA_CACHE \<and>
           cache_of [(CACHE_NAME, [(url api_request, ok_response)])] STATIC_CACHE = cache_of [] STATIC_CACHE"
    by simp
  from a b c d on_fetch_samples show ?thesis by simp
qed

text \<open>
  C9 as stated fails: a page navigation is handled by the navigation strategy, and its
  response is written into the static cache.
\<close>

theorem navigation_writes_static_counterexample:
  "route page_request = Some Navigation \<and>
   on_fetch sw_online page_request [] =
     Some (Inr ok_response, [(STATIC_CACHE, [(url page_request, ok_response)])]) \<and>
   cache_of [] STATIC_CACHE = [] \<and>
   cache_of [(STATIC_CACHE, [(url page_request, ok_response)])] STATIC_CACHE =
     [(url page_request, ok_response)]"
  by (simp add: route_samples on_fetch_samples cache_of_def)

end
